theory Spec2Isabelle
  imports Complex_Main
begin

section \<open>The WebAR viewer: data model\<close>

text \<open>
  The repository holds three revisions of one script: \<^verbatim>\<open>src/unnamed/part_000\<close>
  (the oldest), the first half of \<^verbatim>\<open>src/app.js\<close> (lines 1 to 191) and its second half
  (lines 193 to 442, which adds the menu and a loader that takes a URL). Their
  \<^verbatim>\<open>render\<close> and \<^verbatim>\<open>onSelect\<close> functions are the same text; the session handlers of
  \<^verbatim>\<open>part_000\<close> differ from those of \<^verbatim>\<open>app.js\<close> in what they do to the scale.

  The script keeps its state in top-level variables and changes it in event handlers.
  The model is a record of those variables, one HOL function per handler (state in,
  state out), and a \<open>dispatch\<close> function that plays the host: it delivers one event to
  its handler. A handler that dereferences \<^verbatim>\<open>null\<close> throws a TypeError; the model
  returns \<open>Threw\<close> with the state as it was when the exception left the handler (the
  assignments made before the throw stay made).

  Numbers are JavaScript numbers. The handlers only store and copy them, no arithmetic
  is done on them, so they are modelled as \<open>real\<close>.
\<close>

type_synonym vec3 = "real \<times> real \<times> real"

type_synonym quat = "real \<times> real \<times> real \<times> real"

text \<open>
  A three.js \<^verbatim>\<open>Matrix4\<close>: its sixteen \<^verbatim>\<open>elements\<close>, in column-major order
  (\<^verbatim>\<open>elements[0]\<close> first). An \<^verbatim>\<open>XRRigidTransform.matrix\<close> is a Float32Array of the
  same sixteen numbers, so \<^verbatim>\<open>Matrix4.fromArray\<close> copies all of it.
\<close>

datatype matrix4 =
  Matrix4 real real real real  real real real real  real real real real  real real real real

definition identity4 :: matrix4 where
  "identity4 = Matrix4 1 0 0 0  0 1 0 0  0 0 1 0  0 0 0 1"

definition fromArray :: "matrix4 \<Rightarrow> matrix4" where
  "fromArray arr = arr"

text \<open>
  \<^verbatim>\<open>Matrix4.decompose(position, quaternion, scale)\<close> writes \<^verbatim>\<open>elements[12..14]\<close>
  into \<^verbatim>\<open>position\<close>. \<^verbatim>\<open>onSelect\<close> uses nothing else of what it computes.
\<close>

fun decompose_position :: "matrix4 \<Rightarrow> vec3" where
  "decompose_position (Matrix4 e0 e1 e2 e3  e4 e5 e6 e7  e8 e9 e10 e11  e12 e13 e14 e15) =
     (e12, e13, e14)"

text \<open>The fields of a three.js \<^verbatim>\<open>Object3D\<close> that the script reads or writes.\<close>

record object3d =
  visible :: bool
  position :: vec3
  quaternion :: quat
  scale :: vec3

text \<open>
  The reticle is a \<^verbatim>\<open>Mesh\<close> with \<^verbatim>\<open>matrixAutoUpdate = false\<close>: its matrix is
  state of its own, written by \<^verbatim>\<open>render\<close> and read by \<^verbatim>\<open>onSelect\<close>; its
  \<^verbatim>\<open>position\<close> field is never written.
\<close>

record mesh = object3d +
  matrix :: matrix4

text \<open>
  A \<^verbatim>\<open>LumaSplatsThree\<close> instance. \<open>ident\<close> is the identity of the JavaScript object
  (the scene and the variable \<^verbatim>\<open>splat\<close> refer to the same object).
\<close>

record splats = object3d +
  ident :: nat
  source :: string

datatype scene_obj = Light | Controller | Reticle | Splat nat

record loading_el =
  innerText :: string
  opacity :: string

text \<open>
  The asynchronous chain of \<^verbatim>\<open>render\<close>:
  \<^verbatim>\<open>session.requestReferenceSpace('viewer').then(rs => session.requestHitTestSource({space: rs}).then(...))\<close>.
  A chain waits for the reference space, then for the hit-test source, then it is
  settled (resolved or rejected). Each chain remembers the session it was issued on.
\<close>

datatype stage = AwaitingReferenceSpace | AwaitingHitTestSource | Settled

text \<open>
  The top-level variables of the script (\<open>scene\<close> to \<open>currentSplatURL\<close>), the part of
  the page it writes (\<open>ar_active\<close>: the class \<^verbatim>\<open>ar-active\<close> of the body; \<open>loadingEl\<close>:
  the element with id \<^verbatim>\<open>loading\<close>, if the page has one), and the part of the host it
  talks to:
  \<^item> \<open>xr_session\<close>: what \<^verbatim>\<open>renderer.xr.getSession()\<close> returns;
  \<^item> \<open>end_listeners\<close>: how many \<^verbatim>\<open>'end'\<close> listeners \<^verbatim>\<open>render\<close> has registered on the
    live session;
  \<^item> \<open>chains\<close>: every request chain issued so far, in order, with its session and stage;
  \<^item> \<open>luma_has_dispose\<close>: whether the \<^verbatim>\<open>LumaSplatsThree\<close> objects of the installed
    library have a \<^verbatim>\<open>dispose\<close> method (the loader tests for it);
  \<^item> \<open>next_ident\<close>: the identity the next constructed object gets;
  \<^item> \<open>disposed\<close>: the identities of the objects on which \<^verbatim>\<open>dispose()\<close> was called.
\<close>

record app_state =
  scene :: "scene_obj list"
  controls_enabled :: bool
  splat :: "splats option"
  reticle :: mesh
  hitTestSource :: "nat option"
  hitTestSourceRequested :: bool
  currentSplatURL :: string
  ar_active :: bool
  loadingEl :: "loading_el option"
  xr_session :: "nat option"
  end_listeners :: nat
  chains :: "(nat \<times> stage) list"
  luma_has_dispose :: bool
  next_ident :: nat
  disposed :: "nat list"

datatype result = Returned app_state | Threw app_state

fun state_of :: "result \<Rightarrow> app_state" where
  "state_of (Returned s) = s"
| "state_of (Threw s) = s"

section \<open>Collaborators\<close>

text \<open>
  \<^verbatim>\<open>Object3D.add\<close> takes the object out of its parent and appends it to the children;
  \<^verbatim>\<open>Object3D.remove\<close> deletes it from the children if it is there.
\<close>

definition scene_add :: "scene_obj \<Rightarrow> scene_obj list \<Rightarrow> scene_obj list" where
  "scene_add obj cs = remove1 obj cs @ [obj]"

definition scene_remove :: "scene_obj \<Rightarrow> scene_obj list \<Rightarrow> scene_obj list" where
  "scene_remove obj cs = remove1 obj cs"

text \<open>
  \<^verbatim>\<open>new LumaSplatsThree({source: url, ...})\<close>: a fresh object with the defaults of
  \<^verbatim>\<open>Object3D\<close> (visible, at the origin, not rotated, unit scale).
\<close>

definition LumaSplatsThree :: "string \<Rightarrow> nat \<Rightarrow> splats" where
  "LumaSplatsThree url i =
     \<lparr>visible = True, position = (0, 0, 0), quaternion = (0, 0, 0, 1), scale = (1, 1, 1),
      ident = i, source = url\<rparr>"

text \<open>
  An \<^verbatim>\<open>XRFrame\<close>, as far as \<^verbatim>\<open>render\<close> looks at it: given a hit-test source,
  \<^verbatim>\<open>frame.getHitTestResults(source)\<close> is a list of results, and each result is what
  \<^verbatim>\<open>hit.getPose(referenceSpace)\<close> returns for the renderer's reference space:
  \<^verbatim>\<open>null\<close> (\<open>None\<close>) or a pose, given by its \<^verbatim>\<open>transform.matrix\<close>.
\<close>

type_synonym xr_frame = "nat \<Rightarrow> matrix4 option list"

section \<open>The handlers\<close>

definition SPLAT_URL :: string where
  "SPLAT_URL = ''https://assets.lumalabs.ai/m/d557c12c-965f-4f74-a187-436d3771c1b5/659174391852_Fisheye_Initial_cp.spz''"

definition DEFAULT_URL :: string where
  "DEFAULT_URL = SPLAT_URL"

text \<open>
  \<^verbatim>\<open>loadSplatModel(url)\<close>, \<^verbatim>\<open>src/app.js\<close> lines 254 to 292. Its first block
  (lines 255 to 260) is \<open>dispose_existing\<close>.
\<close>

definition dispose_existing :: "app_state \<Rightarrow> app_state" where
  "dispose_existing s =
     (case splat s of
        None \<Rightarrow> s
      | Some old \<Rightarrow>
          s\<lparr>scene := scene_remove (Splat (ident old)) (scene s),
            disposed := (if luma_has_dispose s then disposed s @ [ident old] else disposed s),
            splat := None\<rparr>)"

definition loadSplatModel :: "string \<Rightarrow> app_state \<Rightarrow> app_state" where
  "loadSplatModel url s =
     (let s1 = dispose_existing s;
          s2 = s1\<lparr>loadingEl :=
                  map_option (\<lambda>el. el\<lparr>innerText := ''Loading Model...'', opacity := ''1''\<rparr>)
                    (loadingEl s1)\<rparr>;
          new = LumaSplatsThree url (next_ident s2);
          new1 = new\<lparr>scale := (1, 1, 1)\<rparr>;
          new2 = new1\<lparr>position := (0, 1, 0)\<rparr>
      in s2\<lparr>splat := Some new2,
            next_ident := Suc (next_ident s2),
            scene := scene_add (Splat (ident new2)) (scene s2),
            currentSplatURL := url\<rparr>)"

text \<open>
  \<^verbatim>\<open>loadSplatModel()\<close> of the two older revisions (\<^verbatim>\<open>src/app.js\<close> lines 61 to 79,
  \<^verbatim>\<open>part_000\<close> lines 61 to 83): no clean-up, the fixed URL.
\<close>

definition loadSplatModel0 :: "app_state \<Rightarrow> app_state" where
  "loadSplatModel0 s =
     (let new = LumaSplatsThree SPLAT_URL (next_ident s);
          new1 = new\<lparr>scale := (1, 1, 1)\<rparr>;
          new2 = new1\<lparr>position := (0, 1, 0)\<rparr>
      in s\<lparr>splat := Some new2,
           next_ident := Suc (next_ident s),
           scene := scene_add (Splat (ident new2)) (scene s)\<rparr>)"

text \<open>The callbacks \<^verbatim>\<open>splat.onLoad\<close> and \<^verbatim>\<open>splat.onError\<close> (the console output left out).\<close>

definition splat_onLoad :: "app_state \<Rightarrow> app_state" where
  "splat_onLoad s = s\<lparr>loadingEl := map_option (\<lambda>el. el\<lparr>opacity := ''0''\<rparr>) (loadingEl s)\<rparr>"

definition splat_onError :: "app_state \<Rightarrow> app_state" where
  "splat_onError s =
     s\<lparr>loadingEl := map_option (\<lambda>el. el\<lparr>innerText := ''Error loading model''\<rparr>) (loadingEl s)\<rparr>"

text \<open>
  The \<^verbatim>\<open>sessionstart\<close> and \<^verbatim>\<open>sessionend\<close> handlers of \<^verbatim>\<open>src/app.js\<close> (lines 92 to 111
  and 342 to 361). \<^verbatim>\<open>splat.visible = ...\<close> throws when \<^verbatim>\<open>splat\<close> is \<^verbatim>\<open>null\<close>.
\<close>

definition on_sessionstart :: "app_state \<Rightarrow> result" where
  "on_sessionstart s =
     (let s1 = s\<lparr>ar_active := True\<rparr>;
          s2 = s1\<lparr>controls_enabled := False\<rparr>
      in case splat s2 of
           None \<Rightarrow> Threw s2
         | Some sp \<Rightarrow> Returned (s2\<lparr>splat := Some (sp\<lparr>visible := False\<rparr>)\<rparr>))"

definition on_sessionend :: "app_state \<Rightarrow> result" where
  "on_sessionend s =
     (let s1 = s\<lparr>ar_active := False\<rparr>;
          s2 = s1\<lparr>controls_enabled := True\<rparr>
      in case splat s2 of
           None \<Rightarrow> Threw s2
         | Some sp \<Rightarrow>
             Returned
               (s2\<lparr>splat := Some (sp\<lparr>visible := True, position := (0, 1, 0), scale := (1, 1, 1)\<rparr>),
                   hitTestSource := None,
                   hitTestSourceRequested := False\<rparr>))"

text \<open>The same two handlers in \<^verbatim>\<open>src/unnamed/part_000\<close> (lines 96 to 114).\<close>

definition on_sessionstart_part000 :: "app_state \<Rightarrow> result" where
  "on_sessionstart_part000 s =
     (let s1 = s\<lparr>ar_active := True\<rparr>;
          s2 = s1\<lparr>controls_enabled := False\<rparr>
      in case splat s2 of
           None \<Rightarrow> Threw s2
         | Some sp \<Rightarrow> Returned (s2\<lparr>splat := Some (sp\<lparr>scale := (1, 1, 1), visible := False\<rparr>)\<rparr>))"

definition on_sessionend_part000 :: "app_state \<Rightarrow> result" where
  "on_sessionend_part000 s =
     (let s1 = s\<lparr>ar_active := False\<rparr>;
          s2 = s1\<lparr>controls_enabled := True\<rparr>
      in case splat s2 of
           None \<Rightarrow> Threw s2
         | Some sp \<Rightarrow>
             Returned
               (s2\<lparr>splat := Some (sp\<lparr>visible := True, position := (0, 1, 0)\<rparr>),
                   hitTestSource := None,
                   hitTestSourceRequested := False\<rparr>))"

text \<open>\<^verbatim>\<open>onSelect()\<close>: \<^verbatim>\<open>src/app.js\<close> lines 128 to 143 and 378 to 394, \<^verbatim>\<open>part_000\<close> lines 131 to 150.\<close>

definition onSelect :: "app_state \<Rightarrow> app_state" where
  "onSelect s =
     (if visible (reticle s) then
        (case splat s of
           None \<Rightarrow> s
         | Some sp \<Rightarrow>
             s\<lparr>splat := Some (sp\<lparr>visible := True,
                                 position := decompose_position (matrix (reticle s))\<rparr>)\<rparr>)
      else s)"

text \<open>
  The two callbacks that \<^verbatim>\<open>render\<close> creates when it issues the request: the listener
  for the session's \<^verbatim>\<open>'end'\<close> event and the continuation that receives the hit-test
  source.
\<close>

definition on_session_end_listener :: "app_state \<Rightarrow> app_state" where
  "on_session_end_listener s = s\<lparr>hitTestSourceRequested := False, hitTestSource := None\<rparr>"

definition on_hit_test_source :: "nat \<Rightarrow> app_state \<Rightarrow> app_state" where
  "on_hit_test_source src s = s\<lparr>hitTestSource := Some src\<rparr>"

text \<open>
  \<^verbatim>\<open>render(timestamp, frame)\<close>: \<^verbatim>\<open>src/app.js\<close> lines 155 to 191 and 406 to 442,
  \<^verbatim>\<open>part_000\<close> lines 162 to 198. Without a frame it calls \<^verbatim>\<open>controls.update()\<close>, and
  in both cases \<^verbatim>\<open>renderer.render\<close>; neither writes a variable of the script.
  With a frame:
  \<^item> if nothing was requested yet, \<^verbatim>\<open>session.requestReferenceSpace\<close> throws on a
    \<^verbatim>\<open>null\<close> session; otherwise a chain is issued on the session, an \<^verbatim>\<open>'end'\<close>
    listener is registered, and the flag is set;
  \<^item> if a source is stored, the frame is asked for its results: the first one shows the
    reticle and is copied into its matrix (\<^verbatim>\<open>getPose(...).transform\<close> throws on a
    \<^verbatim>\<open>null\<close> pose, after \<^verbatim>\<open>reticle.visible = true\<close>); none hides the reticle.
\<close>

definition render :: "real \<Rightarrow> xr_frame option \<Rightarrow> app_state \<Rightarrow> result" where
  "render timestamp frame s =
     (case frame of
        None \<Rightarrow> Returned s
      | Some f \<Rightarrow>
          (case (if hitTestSourceRequested s then Returned s
                 else (case xr_session s of
                         None \<Rightarrow> Threw s
                       | Some session \<Rightarrow>
                           Returned
                             (s\<lparr>chains := chains s @ [(session, AwaitingReferenceSpace)],
                                end_listeners := Suc (end_listeners s),
                                hitTestSourceRequested := True\<rparr>))) of
             Threw s1 \<Rightarrow> Threw s1
           | Returned s1 \<Rightarrow>
               (case hitTestSource s1 of
                  None \<Rightarrow> Returned s1
                | Some src \<Rightarrow>
                    (case f src of
                       [] \<Rightarrow> Returned (s1\<lparr>reticle := (reticle s1)\<lparr>visible := False\<rparr>\<rparr>)
                     | hit # _ \<Rightarrow>
                         (let s2 = s1\<lparr>reticle := (reticle s1)\<lparr>visible := True\<rparr>\<rparr>
                          in case hit of
                               None \<Rightarrow> Threw s2
                             | Some m \<Rightarrow>
                                 Returned (s2\<lparr>reticle := (reticle s2)\<lparr>matrix := fromArray m\<rparr>\<rparr>))))))"

section \<open>The host\<close>

text \<open>
  The continuation of \<^verbatim>\<open>requestReferenceSpace\<close> for chain \<open>i\<close>: it calls
  \<^verbatim>\<open>session.requestHitTestSource\<close> on the session the chain was issued on. A promise
  settles once, so an event for a chain that is not waiting for it cannot happen and
  changes nothing.
\<close>

definition reference_space_resolved :: "nat \<Rightarrow> app_state \<Rightarrow> app_state" where
  "reference_space_resolved i s =
     (if i < length (chains s) \<and> snd (chains s ! i) = AwaitingReferenceSpace
      then s\<lparr>chains := (chains s)[i := (fst (chains s ! i), AwaitingHitTestSource)]\<rparr>
      else s)"

definition hit_test_source_resolved :: "nat \<Rightarrow> nat \<Rightarrow> app_state \<Rightarrow> app_state" where
  "hit_test_source_resolved i src s =
     (if i < length (chains s) \<and> snd (chains s ! i) = AwaitingHitTestSource
      then on_hit_test_source src (s\<lparr>chains := (chains s)[i := (fst (chains s ! i), Settled)]\<rparr>)
      else s)"

definition chain_rejected :: "nat \<Rightarrow> app_state \<Rightarrow> app_state" where
  "chain_rejected i s =
     (if i < length (chains s) \<and> snd (chains s ! i) \<noteq> Settled
      then s\<lparr>chains := (chains s)[i := (fst (chains s ! i), Settled)]\<rparr>
      else s)"

datatype revision = Part000 | AppJs1 | AppJs2

datatype event =
    Tick real "xr_frame option"
  | Select
  | SessionStart nat
  | SessionEnd
  | LoadAsset string
  | AssetLoaded
  | AssetFailed
  | ReferenceSpaceResolved nat
  | HitTestSourceResolved nat nat
  | ChainRejected nat

text \<open>
  A session starts: the renderer has a new session object (no listener of the script on
  it yet) and dispatches \<^verbatim>\<open>sessionstart\<close>.
\<close>

definition session_start :: "revision \<Rightarrow> nat \<Rightarrow> app_state \<Rightarrow> result" where
  "session_start rv sid s =
     (let s1 = s\<lparr>xr_session := Some sid, end_listeners := 0\<rparr>
      in case rv of
           Part000 \<Rightarrow> on_sessionstart_part000 s1
         | _ \<Rightarrow> on_sessionstart s1)"

text \<open>
  A session ends: the renderer's own \<^verbatim>\<open>'end'\<close> listener, registered when the session
  was set, runs first and dispatches \<^verbatim>\<open>sessionend\<close>; then the listeners that
  \<^verbatim>\<open>render\<close> registered on the session run (an exception in one listener does not
  keep the others from running); then the session is gone.
\<close>

definition session_end :: "revision \<Rightarrow> app_state \<Rightarrow> result" where
  "session_end rv s =
     (let r = (case rv of Part000 \<Rightarrow> on_sessionend_part000 s | _ \<Rightarrow> on_sessionend s);
          s1 = state_of r;
          s2 = (on_session_end_listener ^^ end_listeners s1) s1;
          s3 = s2\<lparr>xr_session := None, end_listeners := 0\<rparr>
      in case r of Returned _ \<Rightarrow> Returned s3 | Threw _ \<Rightarrow> Threw s3)"

fun dispatch :: "revision \<Rightarrow> event \<Rightarrow> app_state \<Rightarrow> result" where
  "dispatch rv (Tick timestamp frame) s = render timestamp frame s"
| "dispatch rv Select s = Returned (onSelect s)"
| "dispatch rv (SessionStart sid) s = session_start rv sid s"
| "dispatch rv SessionEnd s = session_end rv s"
| "dispatch rv (LoadAsset url) s =
     (case rv of AppJs2 \<Rightarrow> Returned (loadSplatModel url s) | _ \<Rightarrow> Returned s)"
| "dispatch rv AssetLoaded s = Returned (splat_onLoad s)"
| "dispatch rv AssetFailed s =
     (case rv of AppJs2 \<Rightarrow> Returned (splat_onError s) | _ \<Rightarrow> Returned s)"
| "dispatch rv (ReferenceSpaceResolved i) s = Returned (reference_space_resolved i s)"
| "dispatch rv (HitTestSourceResolved i src) s = Returned (hit_test_source_resolved i src s)"
| "dispatch rv (ChainRejected i) s = Returned (chain_rejected i s)"

text \<open>
  A run delivers the events one after the other. An exception that leaves a handler is
  reported by the host and the next event is delivered to the state as the handler left
  it.
\<close>

fun run :: "revision \<Rightarrow> event list \<Rightarrow> app_state \<Rightarrow> app_state" where
  "run rv [] s = s"
| "run rv (e # es) s = run rv es (state_of (dispatch rv e s))"

text \<open>
  \<^verbatim>\<open>init()\<close>: the scene with its light, the controls (enabled), the first asset, then
  \<^verbatim>\<open>setupWebXR()\<close>, which adds the controller, makes the reticle (a new \<^verbatim>\<open>Mesh\<close>),
  hides it and adds it. The handlers run only after \<^verbatim>\<open>init()\<close>; before it the variable
  \<^verbatim>\<open>reticle\<close> holds no mesh, and \<open>boot_state\<close> puts a new one in its place.
\<close>

definition new_mesh :: mesh where
  "new_mesh =
     \<lparr>visible = True, position = (0, 0, 0), quaternion = (0, 0, 0, 1), scale = (1, 1, 1),
      matrix = identity4\<rparr>"

definition boot_state :: "loading_el option \<Rightarrow> bool \<Rightarrow> app_state" where
  "boot_state el disp =
     \<lparr>scene = [Light], controls_enabled = True, splat = None, reticle = new_mesh,
      hitTestSource = None, hitTestSourceRequested = False, currentSplatURL = DEFAULT_URL,
      ar_active = False, loadingEl = el, xr_session = None, end_listeners = 0, chains = [],
      luma_has_dispose = disp, next_ident = 0, disposed = []\<rparr>"

definition setupWebXR :: "app_state \<Rightarrow> app_state" where
  "setupWebXR s =
     (let s1 = s\<lparr>scene := scene_add Controller (scene s)\<rparr>;
          s2 = s1\<lparr>reticle := new_mesh\<rparr>;
          s3 = s2\<lparr>reticle := (reticle s2)\<lparr>visible := False\<rparr>\<rparr>
      in s3\<lparr>scene := scene_add Reticle (scene s3)\<rparr>)"

definition init :: "revision \<Rightarrow> loading_el option \<Rightarrow> bool \<Rightarrow> app_state" where
  "init rv el disp =
     setupWebXR
       (case rv of
          AppJs2 \<Rightarrow> loadSplatModel DEFAULT_URL (boot_state el disp)
        | _ \<Rightarrow> loadSplatModel0 (boot_state el disp))"

section \<open>Event sequences\<close>

text \<open>
  The events that start or end a session, the frames that carry device-pose data, and
  the resolutions of a hit-test source request.
\<close>

fun session_event :: "event \<Rightarrow> bool" where
  "session_event (SessionStart sid) = True"
| "session_event SessionEnd = True"
| "session_event e = False"

fun ar_frame :: "event \<Rightarrow> bool" where
  "ar_frame (Tick timestamp (Some f)) = True"
| "ar_frame e = False"

fun source_resolution :: "event \<Rightarrow> bool" where
  "source_resolution (HitTestSourceResolved i src) = True"
| "source_resolution e = False"

definition within_session :: "event list \<Rightarrow> bool" where
  "within_session es = (filter session_event es = [])"

text \<open>The sessions of the request chains issued so far, in the order of issue.\<close>

definition issued :: "app_state \<Rightarrow> nat list" where
  "issued s = map fst (chains s)"

text \<open>The loads, and the asset instances that are children of the scene.\<close>

fun load_event :: "event \<Rightarrow> bool" where
  "load_event (LoadAsset url) = True"
| "load_event e = False"

fun splat_ids :: "scene_obj list \<Rightarrow> nat list" where
  "splat_ids [] = []"
| "splat_ids (Splat i # cs) = i # splat_ids cs"
| "splat_ids (c # cs) = splat_ids cs"

text \<open>The identity of the object the variable \<^verbatim>\<open>splat\<close> holds, if it holds one.\<close>

definition current_ident :: "app_state \<Rightarrow> nat option" where
  "current_ident s = map_option ident (splat s)"

text \<open>
  The scene holds the asset that \<^verbatim>\<open>splat\<close> holds and no other, and that asset was
  constructed before now.
\<close>

definition asset_inv :: "app_state \<Rightarrow> bool" where
  "asset_inv s =
     (case current_ident s of
        None \<Rightarrow> splat_ids (scene s) = []
      | Some i \<Rightarrow> splat_ids (scene s) = [i] \<and> i < next_ident s)"

section \<open>Example states\<close>

text \<open>A frame whose first hit lies at the point (1, 0, 2), whatever the source.\<close>

definition example_frame :: xr_frame where
  "example_frame = (\<lambda>src. [Some (Matrix4 1 0 0 0  0 1 0 0  0 0 1 0  1 0 2 1)])"

text \<open>
  A session in which the source has resolved and a frame has found a surface: the
  reticle is shown at (1, 0, 2) and the asset is still hidden.
\<close>

definition placing_state :: app_state where
  "placing_state =
     run AppJs2
       [SessionStart 1, Tick 0 (Some example_frame), ReferenceSpaceResolved 0,
        HitTestSourceResolved 0 5, Tick 16 (Some example_frame)]
       (init AppJs2 None True)"

text \<open>The same state without a stored source.\<close>

definition waiting_state :: app_state where
  "waiting_state = placing_state\<lparr>hitTestSource := None\<rparr>"

text \<open>A session that has just started, and four events of it.\<close>

definition fresh_session :: app_state where
  "fresh_session = run AppJs2 [SessionStart 1] (init AppJs2 None True)"

definition three_frames :: "event list" where
  "three_frames =
     [Tick 0 (Some example_frame), Tick 16 (Some example_frame), Select,
      Tick 32 (Some example_frame)]"

text \<open>
  A first session issues its request and ends while the request waits for the hit-test
  source; a second session starts and issues its own request; then the first request
  resolves with source 7.
\<close>

definition ended_state :: app_state where
  "ended_state =
     run AppJs2
       [SessionStart 1, Tick 0 (Some example_frame), ReferenceSpaceResolved 0, SessionEnd]
       (init AppJs2 None True)"

definition stale_events :: "event list" where
  "stale_events =
     [SessionStart 1, Tick 0 (Some example_frame), ReferenceSpaceResolved 0, SessionEnd,
      SessionStart 2, Tick 16 (Some example_frame), HitTestSourceResolved 0 7]"

text \<open>The session after the one of \<open>placing_state\<close>: that one ends, the next one starts.\<close>

definition second_session :: app_state where
  "second_session = run AppJs2 [SessionEnd, SessionStart 2] placing_state"

text \<open>\<open>placing_state\<close> with an asset of scale 2, and with no asset.\<close>

definition stretched_state :: app_state where
  "stretched_state =
     placing_state\<lparr>splat := Some \<lparr>visible = False, position = (1, 0, 2),
        quaternion = (0, 0, 0, 1), scale = (2, 2, 2), ident = 0, source = SPLAT_URL\<rparr>\<rparr>"

definition no_asset_state :: app_state where
  "no_asset_state = placing_state\<lparr>splat := None\<rparr>"

text \<open>Two loads from the menu, with a select in between.\<close>

definition two_loads :: "event list" where
  "two_loads = [LoadAsset ''a.spz'', Select, LoadAsset ''b.spz'']"

section \<open>Evaluation\<close>

lemmas handler_defs =
  loadSplatModel_def loadSplatModel0_def dispose_existing_def LumaSplatsThree_def
  scene_add_def scene_remove_def session_start_def session_end_def on_sessionstart_def
  on_sessionend_def on_sessionstart_part000_def on_sessionend_part000_def render_def
  onSelect_def on_session_end_listener_def on_hit_test_source_def
  reference_space_resolved_def hit_test_source_resolved_def chain_rejected_def
  splat_onLoad_def splat_onError_def fromArray_def Let_def

lemmas init_defs =
  init_def boot_state_def setupWebXR_def new_mesh_def identity4_def DEFAULT_URL_def

lemma placing_state_eq:
  "placing_state =
     \<lparr>scene = [Light, Splat 0, Controller, Reticle], controls_enabled = False,
      splat = Some \<lparr>visible = False, position = (0, 1, 0), quaternion = (0, 0, 0, 1),
                    scale = (1, 1, 1), ident = 0, source = SPLAT_URL\<rparr>,
      reticle = \<lparr>visible = True, position = (0, 0, 0), quaternion = (0, 0, 0, 1),
                 scale = (1, 1, 1), matrix = Matrix4 1 0 0 0  0 1 0 0  0 0 1 0  1 0 2 1\<rparr>,
      hitTestSource = Some 5, hitTestSourceRequested = True, currentSplatURL = SPLAT_URL,
      ar_active = True, loadingEl = None, xr_session = Some 1, end_listeners = 1,
      chains = [(1, Settled)], luma_has_dispose = True, next_ident = 1, disposed = []\<rparr>"
  by (simp add: placing_state_def example_frame_def handler_defs init_defs)

lemma fresh_session_eq:
  "fresh_session =
     \<lparr>scene = [Light, Splat 0, Controller, Reticle], controls_enabled = False,
      splat = Some \<lparr>visible = False, position = (0, 1, 0), quaternion = (0, 0, 0, 1),
                    scale = (1, 1, 1), ident = 0, source = SPLAT_URL\<rparr>,
      reticle = \<lparr>visible = False, position = (0, 0, 0), quaternion = (0, 0, 0, 1),
                 scale = (1, 1, 1), matrix = Matrix4 1 0 0 0  0 1 0 0  0 0 1 0  0 0 0 1\<rparr>,
      hitTestSource = None, hitTestSourceRequested = False, currentSplatURL = SPLAT_URL,
      ar_active = True, loadingEl = None, xr_session = Some 1, end_listeners = 0,
      chains = [], luma_has_dispose = True, next_ident = 1, disposed = []\<rparr>"
  by (simp add: fresh_session_def handler_defs init_defs)

section \<open>One request per session\<close>

lemma issued_update: "i < length cs \<Longrightarrow> map fst (cs[i := (fst (cs ! i), st)]) = map fst cs"
  by (simp add: map_update list_update_same_conv)

lemma step_requested:
  assumes "hitTestSourceRequested s" and "\<not> session_event e"
  shows "hitTestSourceRequested (state_of (dispatch rv e s))
         \<and> issued (state_of (dispatch rv e s)) = issued s"
proof (cases e)
  case (Tick t fr)
  with assms show ?thesis
    by (simp add: render_def issued_def Let_def split: option.splits list.splits)
next
  case (LoadAsset url)
  then show ?thesis using assms
    by (cases rv)
       (simp_all add: loadSplatModel_def dispose_existing_def issued_def Let_def
          split: option.splits)
qed (use assms in \<open>simp_all add: issued_def issued_update onSelect_def splat_onLoad_def
      splat_onError_def reference_space_resolved_def hit_test_source_resolved_def
      chain_rejected_def on_hit_test_source_def split: option.splits revision.splits\<close>)

lemma run_requested:
  assumes "hitTestSourceRequested s" and "within_session es"
  shows "hitTestSourceRequested (run rv es s) \<and> issued (run rv es s) = issued s"
  using assms
proof (induction es arbitrary: s)
  case Nil
  then show ?case by simp
next
  case (Cons e es)
  from Cons.prems have e: "\<not> session_event e" and es: "within_session es"
    by (auto simp: within_session_def split: if_splits)
  from step_requested [OF Cons.prems(1) e, of rv]
  have 1: "hitTestSourceRequested (state_of (dispatch rv e s))"
    and 2: "issued (state_of (dispatch rv e s)) = issued s" by blast+
  from Cons.IH [OF 1 es] 2 show ?case by simp
qed

lemma step_not_requested:
  assumes "\<not> hitTestSourceRequested s" and "xr_session s = Some sid"
    and "\<not> session_event e" and "\<not> ar_frame e"
  shows "\<not> hitTestSourceRequested (state_of (dispatch rv e s))
         \<and> xr_session (state_of (dispatch rv e s)) = Some sid
         \<and> issued (state_of (dispatch rv e s)) = issued s"
proof (cases e)
  case (Tick t fr)
  with assms show ?thesis by (cases fr) (simp_all add: render_def)
next
  case (LoadAsset url)
  then show ?thesis using assms
    by (cases rv)
       (simp_all add: loadSplatModel_def dispose_existing_def issued_def Let_def
          split: option.splits)
qed (use assms in \<open>simp_all add: issued_def issued_update onSelect_def splat_onLoad_def
      splat_onError_def reference_space_resolved_def hit_test_source_resolved_def
      chain_rejected_def on_hit_test_source_def split: option.splits revision.splits\<close>)

lemma first_frame_requests:
  assumes "\<not> hitTestSourceRequested s" and "xr_session s = Some sid"
  shows "hitTestSourceRequested (state_of (render t (Some f) s))
         \<and> issued (state_of (render t (Some f) s)) = issued s @ [sid]"
  using assms by (simp add: render_def issued_def Let_def split: option.splits list.splits)

text \<open>
  Claim C2. Take a live session \<open>sid\<close> whose request flag is still clear, and any
  sequence of events of that session (no session start or end among them; frames,
  selects, loads and promise resolutions in any order) that holds at least one frame
  with device-pose data. However many such frames there are, exactly one request chain
  is issued, and it is issued on \<open>sid\<close>: the list of issued chains grows by that one
  entry. The flag is set at the end, which is what keeps the later frames from asking
  again.
\<close>

theorem one_request_per_session:
  assumes "xr_session s = Some sid" and "\<not> hitTestSourceRequested s"
    and "within_session es" and "0 < length (filter ar_frame es)"
  shows "issued (run rv es s) = issued s @ [sid] \<and> hitTestSourceRequested (run rv es s)"
  using assms
proof (induction es arbitrary: s)
  case Nil
  then show ?case by simp
next
  case (Cons e es)
  from Cons.prems(3) have e: "\<not> session_event e" and es: "within_session es"
    by (auto simp: within_session_def split: if_splits)
  show ?case
  proof (cases "ar_frame e")
    case True
    then obtain t f where ev: "e = Tick t (Some f)"
      by (cases e rule: ar_frame.cases) simp_all
    from first_frame_requests [OF Cons.prems(2) Cons.prems(1), of t f]
    have 1: "hitTestSourceRequested (state_of (dispatch rv e s))"
      and 2: "issued (state_of (dispatch rv e s)) = issued s @ [sid]"
      by (simp_all add: ev)
    from run_requested [OF 1 es, of rv] 2 show ?thesis by simp
  next
    case False
    from step_not_requested [OF Cons.prems(2) Cons.prems(1) e False, of rv]
    have 1: "\<not> hitTestSourceRequested (state_of (dispatch rv e s))"
      and 2: "xr_session (state_of (dispatch rv e s)) = Some sid"
      and 3: "issued (state_of (dispatch rv e s)) = issued s" by blast+
    from Cons.prems(4) False have 4: "0 < length (filter ar_frame es)" by simp
    from Cons.IH [OF 2 1 es 4] 3 show ?thesis by simp
  qed
qed

theorem one_request_per_session_witness:
  "xr_session fresh_session = Some 1 \<and> \<not> hitTestSourceRequested fresh_session
   \<and> within_session three_frames \<and> length (filter ar_frame three_frames) = 3
   \<and> issued (run AppJs2 three_frames fresh_session) = [1]
   \<and> hitTestSourceRequested (run AppJs2 three_frames fresh_session)"
proof -
  have a: "xr_session fresh_session = Some 1" by (simp add: fresh_session_eq)
  have b: "\<not> hitTestSourceRequested fresh_session" by (simp add: fresh_session_eq)
  have c: "within_session three_frames" by (simp add: within_session_def three_frames_def)
  have d: "length (filter ar_frame three_frames) = 3" by (simp add: three_frames_def)
  then have e: "0 < length (filter ar_frame three_frames)" by simp
  have f: "issued fresh_session = []" by (simp add: fresh_session_eq issued_def)
  from one_request_per_session [OF a b c e, of AppJs2] a b c d f show ?thesis by simp
qed

section \<open>Placement\<close>

text \<open>
  Claim C4. When the reticle is visible and an asset is loaded, the select trigger
  returns without an exception and changes nothing but the asset: the asset becomes
  visible and its position becomes the reticle's position, that is, the translation
  held in the reticle's matrix: \<^verbatim>\<open>elements[12]\<close>, \<^verbatim>\<open>elements[13]\<close> and
  \<^verbatim>\<open>elements[14]\<close>, whatever the other thirteen elements are. The asset's
  orientation, scale, identity and source stay as they were.
\<close>

theorem select_places_asset:
  assumes "visible (reticle s)" and "splat s = Some sp"
    and "matrix (reticle s) =
           Matrix4 e0 e1 e2 e3  e4 e5 e6 e7  e8 e9 e10 e11  e12 e13 e14 e15"
  shows "\<exists>sp'. dispatch rv Select s = Returned (s\<lparr>splat := Some sp'\<rparr>)
           \<and> visible sp'
           \<and> position sp' = (e12, e13, e14)
           \<and> quaternion sp' = quaternion sp
           \<and> scale sp' = scale sp \<and> ident sp' = ident sp \<and> source sp' = source sp"
proof -
  let ?sp' = "sp\<lparr>visible := True, position := (e12, e13, e14)\<rparr>"
  have "dispatch rv Select s = Returned (s\<lparr>splat := Some ?sp'\<rparr>)"
    using assms by (simp add: onSelect_def)
  moreover have "visible ?sp'" "position ?sp' = (e12, e13, e14)"
    "quaternion ?sp' = quaternion sp" "scale ?sp' = scale sp" "ident ?sp' = ident sp"
    "source ?sp' = source sp"
    by simp_all
  ultimately show ?thesis by blast
qed

theorem select_places_asset_witness:
  "visible (reticle placing_state)
   \<and> matrix (reticle placing_state) = Matrix4 1 0 0 0  0 1 0 0  0 0 1 0  1 0 2 1
   \<and> map_option position (splat placing_state) = Some (0, 1, 0)
   \<and> map_option position (splat (state_of (dispatch AppJs2 Select placing_state))) = Some (1, 0, 2)
   \<and> map_option visible (splat (state_of (dispatch AppJs2 Select placing_state))) = Some True
   \<and> map_option quaternion (splat (state_of (dispatch AppJs2 Select placing_state)))
       = Some (0, 0, 0, 1)"
proof -
  have v: "visible (reticle placing_state)" by (simp add: placing_state_eq)
  have sp: "splat placing_state =
      Some \<lparr>visible = False, position = (0, 1, 0), quaternion = (0, 0, 0, 1),
            scale = (1, 1, 1), ident = 0, source = SPLAT_URL\<rparr>"
    by (simp add: placing_state_eq)
  have m: "matrix (reticle placing_state) = Matrix4 1 0 0 0  0 1 0 0  0 0 1 0  1 0 2 1"
    by (simp add: placing_state_eq)
  from select_places_asset [OF v sp m, of AppJs2] v sp m show ?thesis by auto
qed

text \<open>
  Claim C5. When the reticle is not visible, or no asset is loaded, the select trigger
  returns (no exception) and the whole state is as before: the asset, the reticle and
  everything else.
\<close>

theorem select_noop:
  assumes "\<not> visible (reticle s) \<or> splat s = None"
  shows "dispatch rv Select s = Returned s"
  using assms by (auto simp: onSelect_def)

theorem select_noop_witness:
  "\<not> visible (reticle (init AppJs2 None True))
   \<and> dispatch AppJs2 Select (init AppJs2 None True) = Returned (init AppJs2 None True)
   \<and> visible (reticle no_asset_state) \<and> splat no_asset_state = None
   \<and> dispatch AppJs2 Select no_asset_state = Returned no_asset_state"
proof -
  have h: "\<not> visible (reticle (init AppJs2 None True))"
    by (simp add: init_defs handler_defs)
  have k: "visible (reticle no_asset_state)" "splat no_asset_state = None"
    by (simp_all add: no_asset_state_def placing_state_eq)
  from select_noop [of "init AppJs2 None True" AppJs2]
    select_noop [of no_asset_state AppJs2] h k
  show ?thesis by simp
qed

section \<open>Session end\<close>

lemma funpow_end_listener:
  "(on_session_end_listener ^^ n) s = (if n = 0 then s else on_session_end_listener s)"
proof (induction n)
  case 0
  show ?case by simp
next
  case (Suc n)
  then show ?case by (simp add: on_session_end_listener_def)
qed

text \<open>
  Claim C9. Delivering the session-end notification a second time, with no session start
  in between, gives the same outcome and the same state as delivering it once. This
  holds for the \<^verbatim>\<open>sessionend\<close> handler of \<^verbatim>\<open>app.js\<close>, for that of \<^verbatim>\<open>part_000\<close>, for the
  \<^verbatim>\<open>'end'\<close> listener that \<^verbatim>\<open>render\<close> registers, and for the whole notification as the
  host delivers it, from any state.
\<close>

theorem sessionend_idempotent:
  "on_sessionend (state_of (on_sessionend s)) = on_sessionend s
   \<and> on_sessionend_part000 (state_of (on_sessionend_part000 s)) = on_sessionend_part000 s
   \<and> on_session_end_listener (on_session_end_listener s) = on_session_end_listener s
   \<and> dispatch rv SessionEnd (state_of (dispatch rv SessionEnd s)) = dispatch rv SessionEnd s"
proof -
  have a: "on_sessionend (state_of (on_sessionend s)) = on_sessionend s" for s
    by (cases "splat s") (simp_all add: on_sessionend_def)
  have b: "on_sessionend_part000 (state_of (on_sessionend_part000 s)) = on_sessionend_part000 s"
    for s
    by (cases "splat s") (simp_all add: on_sessionend_part000_def)
  have c: "on_session_end_listener (on_session_end_listener s) = on_session_end_listener s"
    by (simp add: on_session_end_listener_def)
  have d: "dispatch rv SessionEnd (state_of (dispatch rv SessionEnd s)) = dispatch rv SessionEnd s"
    by (cases rv; cases "splat s")
       (simp_all add: session_end_def on_sessionend_def on_sessionend_part000_def
          funpow_end_listener on_session_end_listener_def Let_def)
  from a b c d show ?thesis by blast
qed

section \<open>Frames without a source\<close>

text \<open>
  Claim C10. A frame with device-pose data that finds no stored hit-test source (before
  the request, while it is pending, or after it failed) leaves the reticle as it was,
  visibility and matrix alike, and the source stays absent. So a reticle that was
  visible stays visible: such a frame does not hide it.
\<close>

theorem frame_without_source_keeps_reticle:
  assumes "hitTestSource s = None"
  shows "reticle (state_of (render timestamp (Some f) s)) = reticle s
         \<and> hitTestSource (state_of (render timestamp (Some f) s)) = None"
  using assms by (simp add: render_def split: option.splits)

theorem frame_without_source_keeps_reticle_witness:
  "hitTestSource waiting_state = None \<and> hitTestSourceRequested waiting_state
   \<and> visible (reticle waiting_state)
   \<and> visible (reticle (state_of (render 32 (Some (\<lambda>src. [])) waiting_state)))"
proof -
  have h: "hitTestSource waiting_state = None" by (simp add: waiting_state_def)
  have v: "visible (reticle waiting_state)" "hitTestSourceRequested waiting_state"
    by (simp_all add: waiting_state_def placing_state_eq)
  from frame_without_source_keeps_reticle [OF h, of 32 "\<lambda>src. []"] h v show ?thesis by simp
qed

lemma second_session_eq:
  "second_session =
     \<lparr>scene = [Light, Splat 0, Controller, Reticle], controls_enabled = False,
      splat = Some \<lparr>visible = False, position = (0, 1, 0), quaternion = (0, 0, 0, 1),
                    scale = (1, 1, 1), ident = 0, source = SPLAT_URL\<rparr>,
      reticle = \<lparr>visible = True, position = (0, 0, 0), quaternion = (0, 0, 0, 1),
                 scale = (1, 1, 1), matrix = Matrix4 1 0 0 0  0 1 0 0  0 0 1 0  1 0 2 1\<rparr>,
      hitTestSource = None, hitTestSourceRequested = False, currentSplatURL = SPLAT_URL,
      ar_active = True, loadingEl = None, xr_session = Some 2, end_listeners = 0,
      chains = [(1, Settled)], luma_has_dispose = True, next_ident = 1, disposed = []\<rparr>"
  by (simp add: second_session_def placing_state_eq handler_defs)

text \<open>
  Claim C6, as stated, fails. In \<open>second_session\<close> the session before ended with the
  reticle shown, and nothing hides it when a session ends or starts. No source resolves
  in the new session (the stored source stays absent through its frames), yet the
  reticle is visible from its start to its end.
\<close>

theorem degraded_session_counterexample:
  "xr_session second_session = Some 2 \<and> hitTestSource second_session = None
   \<and> filter source_resolution three_frames = []
   \<and> hitTestSource (run AppJs2 (take 1 three_frames) second_session) = None
   \<and> hitTestSource (run AppJs2 three_frames second_session) = None
   \<and> visible (reticle second_session)
   \<and> visible (reticle (run AppJs2 (take 1 three_frames) second_session))
   \<and> visible (reticle (run AppJs2 three_frames second_session))"
  by (simp add: second_session_eq three_frames_def example_frame_def handler_defs)

lemma step_no_source:
  assumes "hitTestSource s = None" and "\<not> source_resolution e"
  shows "hitTestSource (state_of (dispatch rv e s)) = None
         \<and> reticle (state_of (dispatch rv e s)) = reticle s"
proof (cases e)
  case (Tick t fr)
  with assms show ?thesis
    by (cases fr) (simp_all add: render_def split: option.splits)
next
  case (SessionStart sid)
  with assms show ?thesis
    by (cases rv)
       (simp_all add: session_start_def on_sessionstart_def on_sessionstart_part000_def
          Let_def split: option.splits)
next
  case SessionEnd
  with assms show ?thesis
    by (cases rv)
       (simp_all add: session_end_def on_sessionend_def on_sessionend_part000_def
          funpow_end_listener on_session_end_listener_def Let_def split: option.splits)
next
  case (LoadAsset url)
  with assms show ?thesis
    by (cases rv)
       (simp_all add: loadSplatModel_def dispose_existing_def Let_def split: option.splits)
qed (use assms in \<open>simp_all add: onSelect_def splat_onLoad_def splat_onError_def
      reference_space_resolved_def chain_rejected_def split: option.splits revision.splits\<close>)

text \<open>
  Claim C6, amended. Start with no stored source and deliver any events among which no
  hit-test source resolves. Then after every prefix of the events the stored source is
  still absent, so no frame asks for hit-test results and none reports a hit, and the
  reticle is exactly as it was at the start, visibility and matrix alike. The reticle is
  hidden throughout such a session when it was hidden at its start, as it is in a first
  session; it is not hidden by the session.
\<close>

theorem no_source_keeps_reticle:
  assumes "hitTestSource s = None" and "filter source_resolution es = []"
  shows "hitTestSource (run rv (take n es) s) = None
         \<and> reticle (run rv (take n es) s) = reticle s"
  using assms
proof (induction es arbitrary: s n)
  case Nil
  then show ?case by simp
next
  case (Cons e es)
  from Cons.prems(2) have e: "\<not> source_resolution e"
    and es: "filter source_resolution es = []"
    by (auto split: if_splits)
  show ?case
  proof (cases n)
    case 0
    with Cons.prems(1) show ?thesis by simp
  next
    case (Suc m)
    from step_no_source [OF Cons.prems(1) e, of rv]
    have 1: "hitTestSource (state_of (dispatch rv e s)) = None"
      and 2: "reticle (state_of (dispatch rv e s)) = reticle s" by blast+
    from Cons.IH [OF 1 es, of m] 2 Suc show ?thesis by simp
  qed
qed

theorem no_source_keeps_reticle_witness:
  "hitTestSource fresh_session = None \<and> filter source_resolution three_frames = []
   \<and> \<not> visible (reticle fresh_session)
   \<and> (\<forall>n. \<not> visible (reticle (run AppJs2 (take n three_frames) fresh_session))
          \<and> hitTestSource (run AppJs2 (take n three_frames) fresh_session) = None)"
proof -
  have a: "hitTestSource fresh_session = None" by (simp add: fresh_session_eq)
  have b: "filter source_resolution three_frames = []" by (simp add: three_frames_def)
  have c: "\<not> visible (reticle fresh_session)" by (simp add: fresh_session_eq)
  from no_source_keeps_reticle [OF a b, of AppJs2] a b c show ?thesis by simp
qed

section \<open>What session end resets\<close>

text \<open>
  Claim C3, as stated, fails. A session that ends while the reticle is shown leaves it
  shown: neither the \<^verbatim>\<open>sessionend\<close> handler nor the \<^verbatim>\<open>'end'\<close> listener writes
  \<^verbatim>\<open>reticle.visible\<close>. The handler of \<^verbatim>\<open>part_000\<close> does not write the scale: an
  asset of scale 2 keeps it. And with no asset the handler throws at
  \<^verbatim>\<open>splat.visible = true\<close>, before it comes to clear the stored source.
\<close>

theorem sessionend_keeps_reticle_counterexample:
  "visible (reticle placing_state)
   \<and> visible (reticle (state_of (on_sessionend placing_state)))
   \<and> visible (reticle (state_of (dispatch AppJs2 SessionEnd placing_state)))
   \<and> map_option scale (splat (state_of (on_sessionend_part000 stretched_state)))
       = Some (2, 2, 2)
   \<and> on_sessionend no_asset_state
       = Threw (no_asset_state\<lparr>ar_active := False, controls_enabled := True\<rparr>)
   \<and> hitTestSource (state_of (on_sessionend no_asset_state)) = Some 5"
  by (simp add: placing_state_eq stretched_state_def no_asset_state_def handler_defs)

lemma sessionend_handler_resets:
  assumes "splat s = Some sp"
  shows "on_sessionend s =
           Returned
             (s\<lparr>ar_active := False, controls_enabled := True,
                splat := Some (sp\<lparr>visible := True, position := (0, 1, 0), scale := (1, 1, 1)\<rparr>),
                hitTestSource := None, hitTestSourceRequested := False\<rparr>)"
    and "on_sessionend_part000 s =
           Returned
             (s\<lparr>ar_active := False, controls_enabled := True,
                splat := Some (sp\<lparr>visible := True, position := (0, 1, 0)\<rparr>),
                hitTestSource := None, hitTestSourceRequested := False\<rparr>)"
  using assms by (simp_all add: on_sessionend_def on_sessionend_part000_def)

text \<open>
  Claim C3, amended. When an asset is loaded, the session-end notification returns
  without an exception, and after it: no hit-test source is stored, the request flag is
  clear, the orbit controls are enabled, no session is live, and the asset is visible at
  (0, 1, 0) with its orientation untouched. Its scale is (1, 1, 1) in \<^verbatim>\<open>app.js\<close>;
  \<^verbatim>\<open>part_000\<close> leaves the scale as it was. The reticle, its visibility included, is as
  it was before the notification.
\<close>

theorem sessionend_resets:
  assumes "splat s = Some sp"
  shows "\<exists>s' sp'. dispatch rv SessionEnd s = Returned s'
           \<and> hitTestSource s' = None \<and> \<not> hitTestSourceRequested s'
           \<and> controls_enabled s' \<and> xr_session s' = None
           \<and> splat s' = Some sp' \<and> visible sp' \<and> position sp' = (0, 1, 0)
           \<and> scale sp' = (if rv = Part000 then scale sp else (1, 1, 1))
           \<and> quaternion sp' = quaternion sp
           \<and> reticle s' = reticle s"
  by (cases rv)
     (simp_all add: session_end_def sessionend_handler_resets [OF assms] funpow_end_listener
        on_session_end_listener_def Let_def)

theorem sessionend_resets_witness:
  "hitTestSource placing_state = Some 5 \<and> hitTestSourceRequested placing_state
   \<and> hitTestSource (state_of (dispatch AppJs2 SessionEnd placing_state)) = None
   \<and> \<not> hitTestSourceRequested (state_of (dispatch AppJs2 SessionEnd placing_state))
   \<and> map_option position (splat (state_of (dispatch AppJs2 SessionEnd placing_state)))
       = Some (0, 1, 0)
   \<and> map_option visible (splat (state_of (dispatch AppJs2 SessionEnd placing_state)))
       = Some True
   \<and> reticle (state_of (dispatch AppJs2 SessionEnd placing_state)) = reticle placing_state"
proof -
  have sp: "splat placing_state =
      Some \<lparr>visible = False, position = (0, 1, 0), quaternion = (0, 0, 0, 1),
            scale = (1, 1, 1), ident = 0, source = SPLAT_URL\<rparr>"
    by (simp add: placing_state_eq)
  have h: "hitTestSource placing_state = Some 5" "hitTestSourceRequested placing_state"
    by (simp_all add: placing_state_eq)
  from sessionend_resets [OF sp, of AppJs2] h show ?thesis by auto
qed

section \<open>Late resolution\<close>

text \<open>
  Claim C1, as stated, fails. In \<open>stale_events\<close> the chain of session 1 resolves with
  source 7 after session 1 has ended and session 2 has started. Before the resolution
  no source is stored; after it source 7 is, while session 2 is live and its own chain
  still waits for its reference space.
\<close>

theorem late_resolution_counterexample:
  "xr_session (run AppJs2 stale_events (init AppJs2 None True)) = Some 2
   \<and> chains (run AppJs2 stale_events (init AppJs2 None True))
       = [(1, Settled), (2, AwaitingReferenceSpace)]
   \<and> hitTestSource (run AppJs2 (butlast stale_events) (init AppJs2 None True)) = None
   \<and> hitTestSource (run AppJs2 stale_events (init AppJs2 None True)) = Some 7"
  by (simp add: stale_events_def example_frame_def handler_defs init_defs)

text \<open>
  Claim C1, amended. When a chain that waits for its hit-test source resolves, the
  source it resolves with becomes the stored source, whatever session the chain was
  issued on and whatever session is live now: also after the chain's session has ended
  and after another has started. The resolution settles the chain and changes nothing
  else; the request flag in particular is as it was, so the flag is set by a frame of
  the live session and cleared by a session end, and by nothing else.
\<close>

theorem late_resolution_stored:
  assumes "i < length (chains s)" and "chains s ! i = (sid, AwaitingHitTestSource)"
  shows "dispatch rv (HitTestSourceResolved i src) s
           = Returned (s\<lparr>chains := (chains s)[i := (sid, Settled)], hitTestSource := Some src\<rparr>)
         \<and> hitTestSource (state_of (dispatch rv (HitTestSourceResolved i src) s)) = Some src
         \<and> hitTestSourceRequested (state_of (dispatch rv (HitTestSourceResolved i src) s))
             = hitTestSourceRequested s"
  using assms by (simp add: hit_test_source_resolved_def on_hit_test_source_def)

theorem late_resolution_stored_witness:
  "xr_session ended_state = None \<and> hitTestSource ended_state = None
   \<and> \<not> hitTestSourceRequested ended_state
   \<and> chains ended_state ! 0 = (1, AwaitingHitTestSource)
   \<and> hitTestSource (state_of (dispatch AppJs2 (HitTestSourceResolved 0 7) ended_state))
       = Some 7
   \<and> \<not> hitTestSourceRequested
         (state_of (dispatch AppJs2 (HitTestSourceResolved 0 7) ended_state))"
proof -
  have e: "xr_session ended_state = None" "hitTestSource ended_state = None"
    "\<not> hitTestSourceRequested ended_state"
    "chains ended_state = [(1, AwaitingHitTestSource)]"
    by (simp_all add: ended_state_def example_frame_def handler_defs init_defs)
  then have a: "0 < length (chains ended_state)"
    and b: "chains ended_state ! 0 = (1, AwaitingHitTestSource)" by simp_all
  from late_resolution_stored [OF a b, of AppJs2 7] e b show ?thesis by simp
qed

section \<open>Loading assets\<close>

lemma splat_ids_append: "splat_ids (cs @ ds) = splat_ids cs @ splat_ids ds"
  by (induction cs rule: splat_ids.induct) simp_all

lemma splat_ids_remove1: "splat_ids (remove1 (Splat i) cs) = remove1 i (splat_ids cs)"
  by (induction cs rule: splat_ids.induct) auto

lemma splat_ids_mem: "Splat i \<in> set cs \<longleftrightarrow> i \<in> set (splat_ids cs)"
  by (induction cs rule: splat_ids.induct) auto

lemma run_append: "run rv (es @ fs) s = run rv fs (run rv es s)"
  by (induction es arbitrary: s) simp_all

lemma dispose_existing_facts:
  assumes "luma_has_dispose s" and "asset_inv s"
  shows "splat_ids (scene (dispose_existing s)) = []"
    and "splat (dispose_existing s) = None"
    and "next_ident (dispose_existing s) = next_ident s"
    and "luma_has_dispose (dispose_existing s)"
    and "set (disposed (dispose_existing s)) = set (disposed s) \<union> set_option (current_ident s)"
  using assms
  by (auto simp: dispose_existing_def asset_inv_def current_ident_def scene_remove_def
      splat_ids_remove1 split: option.splits)

lemma load_facts:
  assumes "luma_has_dispose s" and "asset_inv s"
  shows "current_ident (loadSplatModel url s) = Some (next_ident s)"
    and "splat_ids (scene (loadSplatModel url s)) = [next_ident s]"
    and "next_ident (loadSplatModel url s) = Suc (next_ident s)"
    and "luma_has_dispose (loadSplatModel url s)"
    and "set (disposed (loadSplatModel url s)) = set (disposed s) \<union> set_option (current_ident s)"
  using dispose_existing_facts [OF assms]
  by (simp_all add: loadSplatModel_def Let_def current_ident_def LumaSplatsThree_def
      scene_add_def splat_ids_append splat_ids_remove1)

lemma other_event_frame:
  assumes "\<not> load_event e"
  shows "scene (state_of (dispatch AppJs2 e s)) = scene s"
    and "current_ident (state_of (dispatch AppJs2 e s)) = current_ident s"
    and "next_ident (state_of (dispatch AppJs2 e s)) = next_ident s"
    and "disposed (state_of (dispatch AppJs2 e s)) = disposed s"
    and "luma_has_dispose (state_of (dispatch AppJs2 e s)) = luma_has_dispose s"
proof -
  have "scene (state_of (dispatch AppJs2 e s)) = scene s
    \<and> current_ident (state_of (dispatch AppJs2 e s)) = current_ident s
    \<and> next_ident (state_of (dispatch AppJs2 e s)) = next_ident s
    \<and> disposed (state_of (dispatch AppJs2 e s)) = disposed s
    \<and> luma_has_dispose (state_of (dispatch AppJs2 e s)) = luma_has_dispose s"
  proof (cases e)
    case (Tick t fr)
    then show ?thesis
      by (simp add: render_def current_ident_def Let_def split: option.splits list.splits)
  next
    case (SessionStart sid)
    then show ?thesis
      by (simp add: session_start_def on_sessionstart_def current_ident_def Let_def
          split: option.splits)
  next
    case SessionEnd
    then show ?thesis
      by (simp add: session_end_def on_sessionend_def funpow_end_listener
          on_session_end_listener_def current_ident_def Let_def split: option.splits)
  next
    case (LoadAsset url)
    with assms show ?thesis by simp
  qed (simp_all add: current_ident_def onSelect_def splat_onLoad_def splat_onError_def
      reference_space_resolved_def hit_test_source_resolved_def chain_rejected_def
      on_hit_test_source_def split: option.splits)
  then show "scene (state_of (dispatch AppJs2 e s)) = scene s"
    and "current_ident (state_of (dispatch AppJs2 e s)) = current_ident s"
    and "next_ident (state_of (dispatch AppJs2 e s)) = next_ident s"
    and "disposed (state_of (dispatch AppJs2 e s)) = disposed s"
    and "luma_has_dispose (state_of (dispatch AppJs2 e s)) = luma_has_dispose s"
    by blast+
qed

text \<open>
  One event keeps the invariant. \<open>D\<close> is any set of identities that are to be followed:
  each of them that has been constructed is the current asset or has been disposed.
\<close>

lemma step_assets:
  assumes "luma_has_dispose s" and "asset_inv s"
    and "\<forall>i. i \<in> D \<and> i < next_ident s \<longrightarrow> current_ident s = Some i \<or> i \<in> set (disposed s)"
  shows "luma_has_dispose (state_of (dispatch AppJs2 e s))"
    and "asset_inv (state_of (dispatch AppJs2 e s))"
    and "next_ident (state_of (dispatch AppJs2 e s))
           = next_ident s + length (filter load_event [e])"
    and "\<forall>i. i \<in> D \<and> i < next_ident (state_of (dispatch AppJs2 e s)) \<longrightarrow>
           current_ident (state_of (dispatch AppJs2 e s)) = Some i
           \<or> i \<in> set (disposed (state_of (dispatch AppJs2 e s)))"
    and "load_event e \<Longrightarrow>
           current_ident (state_of (dispatch AppJs2 e s)) = Some (next_ident s)"
proof -
  let ?t = "state_of (dispatch AppJs2 e s)"
  have "luma_has_dispose ?t \<and> asset_inv ?t
        \<and> next_ident ?t = next_ident s + length (filter load_event [e])
        \<and> (\<forall>i. i \<in> D \<and> i < next_ident ?t \<longrightarrow>
              current_ident ?t = Some i \<or> i \<in> set (disposed ?t))
        \<and> (load_event e \<longrightarrow> current_ident ?t = Some (next_ident s))"
  proof (cases "load_event e")
    case True
    then obtain url where e: "e = LoadAsset url"
      by (cases e rule: load_event.cases) simp_all
    note f = load_facts [OF assms(1,2), of url]
    have inv: "asset_inv (loadSplatModel url s)"
      by (simp add: asset_inv_def f)
    have d: "\<forall>i. i \<in> D \<and> i < next_ident (loadSplatModel url s) \<longrightarrow>
               current_ident (loadSplatModel url s) = Some i
               \<or> i \<in> set (disposed (loadSplatModel url s))"
    proof (intro allI impI)
      fix i
      assume i: "i \<in> D \<and> i < next_ident (loadSplatModel url s)"
      show "current_ident (loadSplatModel url s) = Some i
            \<or> i \<in> set (disposed (loadSplatModel url s))"
      proof (cases "i = next_ident s")
        case True
        then show ?thesis by (simp add: f)
      next
        case False
        with i have "i \<in> D \<and> i < next_ident s" by (simp add: f)
        with assms(3) have "current_ident s = Some i \<or> i \<in> set (disposed s)" by blast
        then show ?thesis by (auto simp: f)
      qed
    qed
    from inv d f show ?thesis by (simp add: e)
  next
    case False
    note f = other_event_frame [OF False, of s]
    have inv: "asset_inv ?t"
      using assms(2) by (simp add: asset_inv_def f split: option.splits)
    from inv assms(1,3) False show ?thesis by (simp add: f)
  qed
  then show "luma_has_dispose ?t" and "asset_inv ?t"
    and "next_ident ?t = next_ident s + length (filter load_event [e])"
    and "\<forall>i. i \<in> D \<and> i < next_ident ?t \<longrightarrow>
           current_ident ?t = Some i \<or> i \<in> set (disposed ?t)"
    and "load_event e \<Longrightarrow> current_ident ?t = Some (next_ident s)"
    by blast+
qed

lemma run_assets:
  assumes "luma_has_dispose s" and "asset_inv s"
    and "\<forall>i. i \<in> D \<and> i < next_ident s \<longrightarrow> current_ident s = Some i \<or> i \<in> set (disposed s)"
  shows "luma_has_dispose (run AppJs2 es s) \<and> asset_inv (run AppJs2 es s)
         \<and> next_ident (run AppJs2 es s) = next_ident s + length (filter load_event es)
         \<and> (\<forall>i. i \<in> D \<and> i < next_ident (run AppJs2 es s) \<longrightarrow>
               current_ident (run AppJs2 es s) = Some i
               \<or> i \<in> set (disposed (run AppJs2 es s)))
         \<and> (0 < length (filter load_event es) \<longrightarrow>
               current_ident (run AppJs2 es s) = Some (next_ident (run AppJs2 es s) - 1))"
proof (induction es rule: rev_induct)
  case Nil
  from assms show ?case by simp
next
  case (snoc e es)
  let ?t = "run AppJs2 es s"
  from snoc have 1: "luma_has_dispose ?t" and 2: "asset_inv ?t"
    and 3: "next_ident ?t = next_ident s + length (filter load_event es)"
    and 4: "\<forall>i. i \<in> D \<and> i < next_ident ?t \<longrightarrow>
              current_ident ?t = Some i \<or> i \<in> set (disposed ?t)"
    and 5: "0 < length (filter load_event es) \<longrightarrow> current_ident ?t = Some (next_ident ?t - 1)"
    by blast+
  note st = step_assets [OF 1 2 4, of e]
  have r: "run AppJs2 (es @ [e]) s = state_of (dispatch AppJs2 e ?t)"
    by (simp add: run_append)
  have last: "0 < length (filter load_event (es @ [e])) \<longrightarrow>
      current_ident (state_of (dispatch AppJs2 e ?t))
        = Some (next_ident (state_of (dispatch AppJs2 e ?t)) - 1)"
  proof (cases "load_event e")
    case True
    with st(3,5) show ?thesis by simp
  next
    case False
    with 5 st(3) other_event_frame(2) [OF False, of ?t] show ?thesis by simp
  qed
  from st(1,2,3,4) 3 last show ?case unfolding r by simp
qed

text \<open>
  Claim C7. The library's assets have a \<^verbatim>\<open>dispose\<close> method, and at the start the scene
  holds the current asset and no other (as after \<^verbatim>\<open>init()\<close>). Deliver any events with
  at least one load among them. Then an asset is loaded, it is the one the last load
  constructed, and it is the only asset in the scene. Every asset loaded before it, the
  one of the start and each one constructed since, has been disposed and is not in the
  scene. And the next load will, in its first block and before it constructs anything,
  leave the scene with no asset and the current one disposed.
\<close>

theorem single_live_asset:
  assumes "luma_has_dispose s" and "asset_inv s" and "0 < length (filter load_event es)"
  shows "\<exists>sp. splat (run AppJs2 es s) = Some sp
           \<and> splat_ids (scene (run AppJs2 es s)) = [ident sp]
           \<and> Suc (ident sp) = next_ident s + length (filter load_event es)
           \<and> (\<forall>i. current_ident s = Some i \<or> (next_ident s \<le> i \<and> i < ident sp) \<longrightarrow>
                  i \<in> set (disposed (run AppJs2 es s))
                  \<and> Splat i \<notin> set (scene (run AppJs2 es s)))
           \<and> splat_ids (scene (dispose_existing (run AppJs2 es s))) = []
           \<and> ident sp \<in> set (disposed (dispose_existing (run AppJs2 es s)))"
proof -
  let ?t = "run AppJs2 es s"
  let ?D = "{i. current_ident s = Some i \<or> next_ident s \<le> i}"
  have start: "\<forall>i. i \<in> ?D \<and> i < next_ident s \<longrightarrow>
                 current_ident s = Some i \<or> i \<in> set (disposed s)"
    by auto
  from run_assets [OF assms(1,2) start, of es] assms(3)
  have 1: "luma_has_dispose ?t" and 2: "asset_inv ?t"
    and 3: "next_ident ?t = next_ident s + length (filter load_event es)"
    and 4: "\<forall>i. i \<in> ?D \<and> i < next_ident ?t \<longrightarrow>
              current_ident ?t = Some i \<or> i \<in> set (disposed ?t)"
    and 5: "current_ident ?t = Some (next_ident ?t - 1)"
    by blast+
  from 5 obtain sp where sp: "splat ?t = Some sp" and id: "ident sp = next_ident ?t - 1"
    by (auto simp: current_ident_def)
  from 2 5 id have ids: "splat_ids (scene ?t) = [ident sp]" and lt: "ident sp < next_ident ?t"
    by (simp_all add: asset_inv_def)
  from lt id 3 have suc: "Suc (ident sp) = next_ident s + length (filter load_event es)"
    by simp
  have old: "current_ident s = Some i \<Longrightarrow> i < next_ident s" for i
    using assms(2) by (simp add: asset_inv_def)
  have prev: "\<forall>i. current_ident s = Some i \<or> (next_ident s \<le> i \<and> i < ident sp) \<longrightarrow>
                i \<in> set (disposed ?t) \<and> Splat i \<notin> set (scene ?t)"
  proof (intro allI impI)
    fix i
    assume i: "current_ident s = Some i \<or> (next_ident s \<le> i \<and> i < ident sp)"
    from suc assms(3) have "next_ident s \<le> ident sp" by linarith
    with i old [of i] have less: "i < ident sp" by linarith
    with i lt have "i \<in> ?D \<and> i < next_ident ?t" by auto
    with 4 have "current_ident ?t = Some i \<or> i \<in> set (disposed ?t)" by blast
    with 5 id less have "i \<in> set (disposed ?t)" by simp
    moreover from ids less have "Splat i \<notin> set (scene ?t)" by (simp add: splat_ids_mem)
    ultimately show "i \<in> set (disposed ?t) \<and> Splat i \<notin> set (scene ?t)" by blast
  qed
  from dispose_existing_facts(1,5) [OF 1 2] 5 id
  have next_load: "splat_ids (scene (dispose_existing ?t)) = []"
    "ident sp \<in> set (disposed (dispose_existing ?t))"
    by simp_all
  from sp ids suc prev next_load show ?thesis by blast
qed

theorem single_live_asset_witness:
  "luma_has_dispose (init AppJs2 None True) \<and> asset_inv (init AppJs2 None True)
   \<and> length (filter load_event two_loads) = 2
   \<and> splat_ids (scene (run AppJs2 two_loads (init AppJs2 None True))) = [2]
   \<and> current_ident (run AppJs2 two_loads (init AppJs2 None True)) = Some 2
   \<and> disposed (run AppJs2 two_loads (init AppJs2 None True)) = [0, 1]"
proof -
  have a: "luma_has_dispose (init AppJs2 None True)"
    by (simp add: init_defs handler_defs)
  have b: "asset_inv (init AppJs2 None True)"
    by (simp add: asset_inv_def current_ident_def init_defs handler_defs)
  have c: "length (filter load_event two_loads) = 2" by (simp add: two_loads_def)
  then have d: "0 < length (filter load_event two_loads)" by simp
  have e: "disposed (run AppJs2 two_loads (init AppJs2 None True)) = [0, 1]"
    "current_ident (run AppJs2 two_loads (init AppJs2 None True)) = Some 2"
    "splat_ids (scene (run AppJs2 two_loads (init AppJs2 None True))) = [2]"
    by (simp_all add: two_loads_def current_ident_def init_defs handler_defs)
  from single_live_asset [OF a b d] a b c e show ?thesis by simp
qed

text \<open>
  Claim C8, at a load during a session. From the state after \<^verbatim>\<open>init()\<close> a session
  starts, which hides the asset, and then the menu loads another asset. The new asset is
  at (0, 1, 0) with scale (1, 1, 1), as the claim says, and it is visible although the
  session is live and nothing was placed: \<^verbatim>\<open>loadSplatModel\<close> does not look at the
  session, and only the \<^verbatim>\<open>sessionstart\<close> handler hides an asset.
\<close>

theorem load_during_session_visible:
  "xr_session (run AppJs2 [SessionStart 1, LoadAsset ''blob:x''] (init AppJs2 None True)) = Some 1
   \<and> ar_active (run AppJs2 [SessionStart 1, LoadAsset ''blob:x''] (init AppJs2 None True))
   \<and> map_option visible (splat (run AppJs2 [SessionStart 1] (init AppJs2 None True)))
       = Some False
   \<and> splat (run AppJs2 [SessionStart 1, LoadAsset ''blob:x''] (init AppJs2 None True))
       = Some \<lparr>visible = True, position = (0, 1, 0), quaternion = (0, 0, 0, 1),
               scale = (1, 1, 1), ident = 1, source = ''blob:x''\<rparr>"
  by (simp add: handler_defs init_defs)

end
